theory Spec2Isabelle
  imports Main
begin

section \<open>JavaScript values read by the template list page\<close>

text \<open>
  The page (\<^verbatim>\<open>frontend/pages/performance/templates/index.tsx\<close>) types the response
  body, the list entries and the caught error as \<^verbatim>\<open>any\<close>. A value is therefore
  a parsed JSON document, plus \<^verbatim>\<open>undefined\<close> for a missing property. Numbers are
  integer valued here: the page compares a number only with \<^verbatim>\<open>0\<close>, with an HTTP
  status, or tests its truthiness. An object is an association list read with
  \<open>map_of\<close>.
\<close>

datatype jsval =
    JUndefined
  | JNull
  | JBool bool
  | JNum int
  | JStr string
  | JArr "jsval list"
  | JObj "(string \<times> jsval) list"

text \<open>\<^verbatim>\<open>v === undefined || v === null\<close>: the test behind \<^verbatim>\<open>?.\<close> and \<^verbatim>\<open>??\<close>.\<close>

fun nullish :: "jsval \<Rightarrow> bool" where
  "nullish JUndefined = True"
| "nullish JNull = True"
| "nullish _ = False"

text \<open>JavaScript truthiness, the test behind \<^verbatim>\<open>||\<close>, \<^verbatim>\<open>&&\<close> and \<^verbatim>\<open>!\<close>.\<close>

fun truthy :: "jsval \<Rightarrow> bool" where
  "truthy JUndefined = False"
| "truthy JNull = False"
| "truthy (JBool b) = b"
| "truthy (JNum n) = (n \<noteq> 0)"
| "truthy (JStr s) = (s \<noteq> [])"
| "truthy (JArr _) = True"
| "truthy (JObj _) = True"

text \<open>\<^verbatim>\<open>Array.isArray(v)\<close>.\<close>

fun isArray :: "jsval \<Rightarrow> bool" where
  "isArray (JArr _) = True"
| "isArray _ = False"

text \<open>
  Reading the property \<open>k\<close> of a value that is neither \<^verbatim>\<open>null\<close> nor
  \<^verbatim>\<open>undefined\<close>. The page reads the names \<^verbatim>\<open>items\<close>, \<^verbatim>\<open>data\<close>,
  \<^verbatim>\<open>isActive\<close>, \<^verbatim>\<open>message\<close> and \<^verbatim>\<open>length\<close>; of these an array and a string
  own \<^verbatim>\<open>length\<close> only, and a boolean or a number owns none.
\<close>

fun get_prop :: "jsval \<Rightarrow> string \<Rightarrow> jsval" where
  "get_prop (JObj fs) k = (case map_of fs k of Some v \<Rightarrow> v | None \<Rightarrow> JUndefined)"
| "get_prop (JArr xs) k = (if k = ''length'' then JNum (int (length xs)) else JUndefined)"
| "get_prop (JStr s) k = (if k = ''length'' then JNum (int (length s)) else JUndefined)"
| "get_prop _ k = JUndefined"

text \<open>What a \<^verbatim>\<open>try\<close> block of the page can throw: a \<^verbatim>\<open>TypeError\<close> of the
  language, or the rejection of a request, which carries the server's response when there
  was one.\<close>

record response =
  status :: int
  data :: jsval

datatype thrown = TypeError | AxiosError "response option"

text \<open>\<^verbatim>\<open>v.k\<close>: throws on \<^verbatim>\<open>null\<close> and \<^verbatim>\<open>undefined\<close>.\<close>

definition get_member :: "jsval \<Rightarrow> string \<Rightarrow> thrown + jsval" where
  "get_member v k = (if nullish v then Inl TypeError else Inr (get_prop v k))"

text \<open>\<^verbatim>\<open>v?.k\<close>: \<^verbatim>\<open>undefined\<close> on \<^verbatim>\<open>null\<close> and \<^verbatim>\<open>undefined\<close>.\<close>

definition opt_chain :: "jsval \<Rightarrow> string \<Rightarrow> jsval" where
  "opt_chain v k = (if nullish v then JUndefined else get_prop v k)"

text \<open>\<^verbatim>\<open>a ?? b\<close> and \<^verbatim>\<open>a || b\<close>.\<close>

definition nullish_coalesce :: "jsval \<Rightarrow> jsval \<Rightarrow> jsval" where
  "nullish_coalesce a b = (if nullish a then b else a)"

definition js_or :: "jsval \<Rightarrow> jsval \<Rightarrow> jsval" where
  "js_or a b = (if truthy a then a else b)"

section \<open>Normalization of the response body\<close>

text \<open>
  \<^verbatim>\<open>const list = Array.isArray(data) ? data : data?.items ?? data?.data ?? [];\<close>
\<close>

definition normalizeList :: "jsval \<Rightarrow> jsval" where
  "normalizeList d =
     (if isArray d then d
      else nullish_coalesce (opt_chain d ''items'')
             (nullish_coalesce (opt_chain d ''data'') (JArr [])))"

text \<open>
  \<^verbatim>\<open>list.filter((t: any) => t.isActive !== false)\<close>. The callback reads
  \<^verbatim>\<open>t.isActive\<close> of every entry in order and throws on an entry that is
  \<^verbatim>\<open>null\<close>; a value that is not an array has no callable \<^verbatim>\<open>filter\<close>
  (a parsed JSON document holds no function), so the call throws as well.
\<close>

fun filter_active :: "jsval list \<Rightarrow> thrown + jsval list" where
  "filter_active [] = Inr []"
| "filter_active (t # ts) =
     (case get_member t ''isActive'' of
        Inl ex \<Rightarrow> Inl ex
      | Inr a \<Rightarrow>
          (case filter_active ts of
             Inl ex \<Rightarrow> Inl ex
           | Inr r \<Rightarrow> Inr (if a \<noteq> JBool False then t # r else r)))"

fun call_filter :: "jsval \<Rightarrow> thrown + jsval" where
  "call_filter (JArr xs) =
     (case filter_active xs of Inl ex \<Rightarrow> Inl ex | Inr r \<Rightarrow> Inr (JArr r))"
| "call_filter _ = Inl TypeError"

text \<open>
  \<^verbatim>\<open>n > 0\<close>. The page evaluates \<^verbatim>\<open>list.length > 0\<close> only after
  \<^verbatim>\<open>filteredList.length === 0\<close> held, and then \<^verbatim>\<open>list.length\<close> is a
  number: for a manager \<^verbatim>\<open>list\<close> is an array (the filter call returned), for
  anyone else \<^verbatim>\<open>filteredList\<close> is \<^verbatim>\<open>list\<close> itself. The coercions of the
  other values are never reached and are not modelled.
\<close>

fun js_gt0 :: "jsval \<Rightarrow> bool" where
  "js_gt0 (JNum n) = (0 < n)"
| "js_gt0 _ = False"

section \<open>The page: environment, state and effects\<close>

datatype http_method = GET | DELETE

record request =
  verb :: http_method
  url :: string
  authorization :: string

text \<open>The effects on the world outside the component, in the order they happen. The
  \<^verbatim>\<open>console\<close> output of the page changes neither its state nor its control flow and
  is left out.\<close>

datatype effect = Confirm string | Request request | RouterPush string

text \<open>A request resolves with a response whose body is \<^verbatim>\<open>res.data\<close>, or rejects with
  an error whose \<^verbatim>\<open>response\<close> may be missing (no answer from the server).\<close>

datatype api_result = Resolved jsval | Rejected "response option"

text \<open>
  What the component reads from outside: \<^verbatim>\<open>localStorage.getItem("token")\<close>, the role
  returned by \<^verbatim>\<open>getCurrentRole()\<close> (of \<^verbatim>\<open>utils/routeGuard\<close>, taken as given),
  the user's answer to \<^verbatim>\<open>confirm\<close>, and the server behind \<^verbatim>\<open>api\<close>.
\<close>

record env =
  token :: "string option"
  currentRole :: "string option"
  confirm :: bool
  api :: "request \<Rightarrow> api_result"

definition isHR :: "env \<Rightarrow> bool" where
  "isHR e = (currentRole e = Some ''HR'')"

definition isManager :: "env \<Rightarrow> bool" where
  "isManager e = (currentRole e = Some ''MANAGER'')"

text \<open>The four \<^verbatim>\<open>useState\<close> cells of the component, and the effects performed so far.
  \<^verbatim>\<open>templates\<close> and \<^verbatim>\<open>error\<close> hold whatever the setters were given.\<close>

record page =
  templates :: jsval
  loading :: bool
  error :: jsval
  operationLoading :: "string option"
  trace :: "effect list"

definition initial_page :: page where
  "initial_page =
     \<lparr>templates = JArr [], loading = True, error = JNull, operationLoading = None, trace = []\<rparr>"

definition setTemplates :: "jsval \<Rightarrow> page \<Rightarrow> page" where
  "setTemplates v s = s\<lparr>templates := v\<rparr>"

definition setLoading :: "bool \<Rightarrow> page \<Rightarrow> page" where
  "setLoading b s = s\<lparr>loading := b\<rparr>"

definition setError :: "jsval \<Rightarrow> page \<Rightarrow> page" where
  "setError v s = s\<lparr>error := v\<rparr>"

definition setOperationLoading :: "string option \<Rightarrow> page \<Rightarrow> page" where
  "setOperationLoading v s = s\<lparr>operationLoading := v\<rparr>"

definition perform :: "effect \<Rightarrow> page \<Rightarrow> page" where
  "perform x s = s\<lparr>trace := trace s @ [x]\<rparr>"

text \<open>\<^verbatim>\<open>!token\<close>: no stored token, or an empty one.\<close>

definition token_missing :: "string option \<Rightarrow> bool" where
  "token_missing t = (case t of None \<Rightarrow> True | Some x \<Rightarrow> x = [])"

text \<open>The template literal \<^verbatim>\<open>`Bearer ${token}`\<close>; \<^verbatim>\<open>null\<close> prints as
  \<^verbatim>\<open>null\<close>.\<close>

definition bearer :: "string option \<Rightarrow> string" where
  "bearer t = ''Bearer '' @ (case t of None \<Rightarrow> ''null'' | Some x \<Rightarrow> x)"

text \<open>\<^verbatim>\<open>err.response\<close>, \<^verbatim>\<open>err.response?.status\<close> and
  \<^verbatim>\<open>err.response?.data\<close> of a caught error.\<close>

fun err_response :: "thrown \<Rightarrow> response option" where
  "err_response TypeError = None"
| "err_response (AxiosError r) = r"

definition response_status :: "response option \<Rightarrow> jsval" where
  "response_status r = (case r of None \<Rightarrow> JUndefined | Some x \<Rightarrow> JNum (status x))"

definition response_data :: "response option \<Rightarrow> jsval" where
  "response_data r = (case r of None \<Rightarrow> JUndefined | Some x \<Rightarrow> data x)"

text \<open>\<^verbatim>\<open>try { body } catch (err) { handler } finally { fin }\<close> over the state: the
  body and the handler report what they throw, the state changes made before a throw stay,
  and \<open>fin\<close> runs on every path (also after a \<^verbatim>\<open>return\<close> in the body).\<close>

definition try_catch_finally ::
  "(page \<Rightarrow> thrown option \<times> page) \<Rightarrow> (thrown \<Rightarrow> page \<Rightarrow> thrown option \<times> page) \<Rightarrow>
   (page \<Rightarrow> page) \<Rightarrow> page \<Rightarrow> thrown option \<times> page" where
  "try_catch_finally body handler fin s =
     (case body s of
        (None, s1) \<Rightarrow> (None, fin s1)
      | (Some ex, s1) \<Rightarrow> (case handler ex s1 of (r, s2) \<Rightarrow> (r, fin s2)))"

section \<open>loadTemplates\<close>

definition load_request :: "env \<Rightarrow> request" where
  "load_request e =
     \<lparr>verb = GET, url = ''/performance/templates'', authorization = bearer (token e)\<rparr>"

text \<open>The \<^verbatim>\<open>try\<close> block of \<^verbatim>\<open>loadTemplates\<close> (lines 43 to 84).\<close>

definition load_try :: "env \<Rightarrow> page \<Rightarrow> thrown option \<times> page" where
  "load_try e s0 =
     (let s1 = setError JNull (setLoading True s0) in
      if token_missing (token e) then
        (None, perform (RouterPush ''/login'')
                 (setError (JStr ''Not authenticated. Please login again.'') s1))
      else
        (let s2 = perform (Request (load_request e)) s1 in
         case api e (load_request e) of
           Rejected r \<Rightarrow> (Some (AxiosError r), s2)
         | Resolved d \<Rightarrow>
             (let list = normalizeList d in
              case (if isManager e \<and> \<not> isHR e then call_filter list else Inr list) of
                Inl ex \<Rightarrow> (Some ex, s2)
              | Inr filteredList \<Rightarrow>
                  (let s3 =
                     (if get_prop filteredList ''length'' = JNum 0 \<and>
                         js_gt0 (get_prop list ''length'')
                      then setError (JStr ''No active templates available. Please contact HR.'') s2
                      else if get_prop filteredList ''length'' = JNum 0 then setError JNull s2
                      else s2)
                   in (None, setTemplates filteredList s3)))))"

text \<open>The \<^verbatim>\<open>catch\<close> block of \<^verbatim>\<open>loadTemplates\<close> (lines 85 to 98).\<close>

definition load_catch :: "thrown \<Rightarrow> page \<Rightarrow> thrown option \<times> page" where
  "load_catch err s =
     (let r = err_response err;
          s1 =
            (if response_status r = JNum 403
             then setError (JStr ''You do not have permission to view templates'') s
             else if response_status r = JNum 401
             then perform (RouterPush ''/login'')
                    (setError (JStr ''Authentication failed. Please login again.'') s)
             else setError
                    (js_or (opt_chain (response_data r) ''message'')
                       (JStr ''Failed to load templates. Please check your connection.'')) s)
      in (None, setTemplates (JArr []) s1))"

definition loadTemplates :: "env \<Rightarrow> page \<Rightarrow> thrown option \<times> page" where
  "loadTemplates e s = try_catch_finally (load_try e) load_catch (setLoading False) s"

section \<open>deleteTemplate\<close>

definition delete_request :: "env \<Rightarrow> string \<Rightarrow> request" where
  "delete_request e tid =
     \<lparr>verb = DELETE, url = ''/performance/templates/'' @ tid,
      authorization = bearer (token e)\<rparr>"

text \<open>
  The \<^verbatim>\<open>try\<close> block of \<^verbatim>\<open>deleteTemplate\<close> (lines 111 to 120). The call
  \<^verbatim>\<open>loadTemplates()\<close> is not awaited: what it would throw does not reach this
  \<^verbatim>\<open>catch\<close>, and \<^verbatim>\<open>setOperationLoading(null)\<close> runs before the reload's
  request is answered. The reload never touches \<^verbatim>\<open>operationLoading\<close>, so the state
  after both have finished is the one computed here in sequence.
\<close>

definition delete_try :: "env \<Rightarrow> string \<Rightarrow> page \<Rightarrow> thrown option \<times> page" where
  "delete_try e tid s0 =
     (let s1 = setOperationLoading (Some (''delete-'' @ tid)) s0;
          s2 = perform (Request (delete_request e tid)) s1 in
      case api e (delete_request e tid) of
        Rejected r \<Rightarrow> (Some (AxiosError r), s2)
      | Resolved _ \<Rightarrow> (None, snd (loadTemplates e s2)))"

text \<open>The \<^verbatim>\<open>catch\<close> block of \<^verbatim>\<open>deleteTemplate\<close> (lines 121 to 129).\<close>

definition delete_catch :: "thrown \<Rightarrow> page \<Rightarrow> thrown option \<times> page" where
  "delete_catch err s =
     (let r = err_response err in
      (None,
       if response_status r = JNum 403 then setError (JStr ''You do not have permission'') s
       else if response_status r = JNum 400
       then setError
              (js_or (opt_chain (response_data r) ''message'')
                 (JStr ''Failed to delete template'')) s
       else setError (JStr ''Failed to delete template'') s))"

definition deleteTemplate :: "env \<Rightarrow> string \<Rightarrow> page \<Rightarrow> thrown option \<times> page" where
  "deleteTemplate e tid s0 =
     (let s1 = perform (Confirm ''Delete this template?'') s0 in
      if \<not> confirm e then (None, s1)
      else try_catch_finally (delete_try e tid) delete_catch (setOperationLoading None) s1)"

section \<open>Rendering of the message and of the empty collection\<close>

text \<open>Lines 179 to 190: the banner \<^verbatim>\<open><strong>Error:</strong> {error}\<close>, rendered
  when \<^verbatim>\<open>error\<close> is truthy.\<close>

definition error_banner :: "page \<Rightarrow> jsval option" where
  "error_banner s = (if truthy (error s) then Some (error s) else None)"

text \<open>Lines 192 to 209: the "No Templates Found" panel and its second line.\<close>

definition empty_panel :: "env \<Rightarrow> page \<Rightarrow> string option" where
  "empty_panel e s =
     (if \<not> loading s \<and> \<not> truthy (error s) \<and> get_prop (templates s) ''length'' = JNum 0
      then Some (if isHR e then ''Create your first performance template to get started.''
                 else ''No templates have been created yet. Please contact HR.'')
      else None)"

section \<open>The server bootstrap\<close>

text \<open>
  \<^verbatim>\<open>bootstrap\<close> of the server entry point. \<^verbatim>\<open>process.env\<close> is a map from names
  to strings. \<^verbatim>\<open>dotenv.config()\<close> (a library) is taken as given: a function from the
  process environment before the call to the one after it. The two awaited calls,
  \<^verbatim>\<open>NestFactory.create\<close> and \<^verbatim>\<open>app.listen\<close>, may reject; \<^verbatim>\<open>bootstrap\<close>
  has no handler, so nothing after a rejected call runs.
\<close>

text \<open>\<^verbatim>\<open>process.env.PORT || 3001\<close> is a string or a number.\<close>

datatype port = PortStr string | PortNum nat

record cors_options =
  origin :: string
  credentials :: bool
  methods :: "string list"
  allowedHeaders :: "string list"

datatype boot_effect =
    DotenvConfig
  | ConsoleLog "string list"
  | NestCreate
  | UseJson string
  | UseUrlencoded string bool
  | EnableCors cors_options
  | SwaggerCreateDocument string string string
  | SwaggerSetup string
  | Listen port

record boot_env =
  process_env :: "string \<Rightarrow> string option"
  dotenv_config :: "(string \<Rightarrow> string option) \<Rightarrow> (string \<Rightarrow> string option)"
  create_resolves :: bool
  listen_resolves :: "port \<Rightarrow> bool"

text \<open>A number in a template literal prints as its decimal digits, most significant
  first.\<close>

definition digit_char :: "nat \<Rightarrow> char" where
  "digit_char k = ''0123456789'' ! k"

function decimal_digits :: "nat \<Rightarrow> string \<Rightarrow> string" where
  "decimal_digits n acc =
     (if n div 10 = 0 then digit_char (n mod 10) # acc
      else decimal_digits (n div 10) (digit_char (n mod 10) # acc))"
  by pat_completeness auto
termination
  by (relation "measure fst") auto

declare decimal_digits.simps [simp del]

fun port_text :: "port \<Rightarrow> string" where
  "port_text (PortStr p) = p"
| "port_text (PortNum n) = decimal_digits n []"

text \<open>An argument of \<^verbatim>\<open>console.log\<close> that may be \<^verbatim>\<open>undefined\<close>.\<close>

definition env_text :: "string option \<Rightarrow> string" where
  "env_text v = (case v of None \<Rightarrow> ''undefined'' | Some x \<Rightarrow> x)"

text \<open>\<^verbatim>\<open>const PORT = process.env.PORT || 3001\<close>: an unset or empty variable is falsy.\<close>

definition choose_port :: "(string \<Rightarrow> string option) \<Rightarrow> port" where
  "choose_port env =
     (case env ''PORT'' of
        None \<Rightarrow> PortNum 3001
      | Some p \<Rightarrow> if p = [] then PortNum 3001 else PortStr p)"

text \<open>The two symbols that end the readiness lines (U+1F680 and U+1F7E2), as UTF-8.\<close>

definition rocket :: string where
  "rocket = [CHR 0xF0, CHR 0x9F, CHR 0x9A, CHR 0x80]"

definition green_circle :: string where
  "green_circle = [CHR 0xF0, CHR 0x9F, CHR 0x9F, CHR 0xA2]"

definition readiness_lines :: "port \<Rightarrow> boot_effect list" where
  "readiness_lines p =
     [ConsoleLog [''Backend running at http://localhost:'' @ port_text p @ '' '' @ rocket],
      ConsoleLog [''Swagger running at http://localhost:'' @ port_text p @ ''/api '' @
                  green_circle]]"

definition middleware_setup :: "boot_effect list" where
  "middleware_setup =
     [UseJson ''10mb'',
      UseUrlencoded ''10mb'' True,
      EnableCors
        \<lparr>origin = ''http://localhost:3000'', credentials = True,
         methods = [''GET'', ''POST'', ''PATCH'', ''PUT'', ''DELETE''],
         allowedHeaders = [''Content-Type'', ''Authorization'']\<rparr>,
      SwaggerCreateDocument ''Employee Profile API''
        ''API documentation for Employee Profile, Change Requests, Disputes, and Manager Views''
        ''1.0'',
      SwaggerSetup ''api'']"

text \<open>The result is whether the promise of \<^verbatim>\<open>bootstrap()\<close> resolves, and the effects
  performed, in order.\<close>

definition bootstrap :: "boot_env \<Rightarrow> bool \<times> boot_effect list" where
  "bootstrap b =
     (let env = dotenv_config b (process_env b);
          t1 = [DotenvConfig, ConsoleLog [''BACKEND DB URI =>'', env_text (env ''MONGO_URI'')],
                NestCreate]
      in if \<not> create_resolves b then (False, t1)
         else
           (let PORT = choose_port env;
                t2 = t1 @ middleware_setup @ [Listen PORT]
            in if \<not> listen_resolves b PORT then (False, t2)
               else (True, t2 @ readiness_lines PORT)))"

section \<open>Example inputs\<close>

text \<open>An environment whose server answers every list request with \<open>get_result\<close> and
  every delete request with \<open>delete_result\<close>.\<close>

definition example_env ::
  "string option \<Rightarrow> string option \<Rightarrow> bool \<Rightarrow> api_result \<Rightarrow> api_result \<Rightarrow> env" where
  "example_env tok role answer get_result delete_result =
     \<lparr>token = tok, currentRole = role, confirm = answer,
      api = (\<lambda>rq. case verb rq of GET \<Rightarrow> get_result | DELETE \<Rightarrow> delete_result)\<rparr>"

text \<open>Two template summaries: an inactive one, and one without the flag.\<close>

definition q1_review :: jsval where
  "q1_review =
     JObj [(''_id'', JStr ''1''), (''name'', JStr ''Q1 Review''), (''templateType'', JStr ''self''),
           (''isActive'', JBool False)]"

definition annual :: jsval where
  "annual =
     JObj [(''_id'', JStr ''2''), (''name'', JStr ''Annual''), (''templateType'', JStr ''360'')]"

text \<open>A server process whose two awaited calls resolve and whose \<^verbatim>\<open>.env\<close> file adds
  nothing to the process environment \<open>env\<close>.\<close>

definition example_boot :: "(string \<Rightarrow> string option) \<Rightarrow> boot_env" where
  "example_boot env =
     \<lparr>process_env = env, dotenv_config = (\<lambda>x. x), create_resolves = True,
      listen_resolves = (\<lambda>p. True)\<rparr>"

section \<open>Basic facts\<close>

lemmas setters =
  setTemplates_def setLoading_def setError_def setOperationLoading_def perform_def

lemmas load_defs =
  loadTemplates_def try_catch_finally_def load_try_def load_catch_def Let_def

lemmas delete_defs = deleteTemplate_def delete_try_def delete_catch_def

lemma filter_active_Inr:
  "filter_active xs = Inr r \<Longrightarrow> r = filter (\<lambda>t. get_prop t ''isActive'' \<noteq> JBool False) xs"
  by (induction xs arbitrary: r) (auto simp: get_member_def split: sum.splits if_splits)

text \<open>The filter throws only on an entry that is \<^verbatim>\<open>null\<close> or \<^verbatim>\<open>undefined\<close>.\<close>

lemma filter_active_total:
  "\<forall>t \<in> set xs. \<not> nullish t \<Longrightarrow>
   filter_active xs = Inr (filter (\<lambda>t. get_prop t ''isActive'' \<noteq> JBool False) xs)"
  by (induction xs) (auto simp: get_member_def)

text \<open>\<^verbatim>\<open>list\<close> is never \<^verbatim>\<open>null\<close>, so reading \<^verbatim>\<open>list.length\<close> cannot throw.\<close>

lemma normalizeList_not_nullish: "\<not> nullish (normalizeList d)"
  by (cases d) (auto simp: normalizeList_def nullish_coalesce_def)

lemma loadTemplates_no_throw: "fst (loadTemplates e s) = None"
  by (simp add: load_defs split: prod.splits option.splits)

text \<open>Inside the \<^verbatim>\<open>try\<close> block only the filter call can throw besides the request, and
  what it throws carries no response.\<close>

lemma filter_active_throws: "filter_active xs = Inl ex \<Longrightarrow> ex = TypeError"
  by (induction xs) (auto simp: get_member_def split: sum.splits if_splits)

lemma call_filter_throws: "call_filter v = Inl ex \<Longrightarrow> ex = TypeError"
  by (cases v) (auto dest: filter_active_throws split: sum.splits)

text \<open>The reload leaves \<^verbatim>\<open>operationLoading\<close> alone, and what it displays depends on
  the state before it only through the collection (kept when no token is stored).\<close>

lemma loadTemplates_operationLoading:
  "operationLoading (snd (loadTemplates e s)) = operationLoading s"
  by (simp add: load_defs setters split: api_result.splits sum.splits)

lemma loadTemplates_frame:
  assumes "templates s2 = templates s1"
  shows "templates (snd (loadTemplates e s2)) = templates (snd (loadTemplates e s1)) \<and>
         error (snd (loadTemplates e s2)) = error (snd (loadTemplates e s1))"
  using assms by (simp add: load_defs setters split: api_result.splits sum.splits)

text \<open>The effects of one load: at most one list request, and a redirect to the login page
  exactly when no token is stored or the server answers 401.\<close>

lemma loadTemplates_trace:
  "trace (snd (loadTemplates e s)) =
     trace s @
       (if token_missing (token e) then [RouterPush ''/login'']
        else Request (load_request e) #
             (case api e (load_request e) of
                Rejected r \<Rightarrow> if response_status r = JNum 401 then [RouterPush ''/login''] else []
              | Resolved d \<Rightarrow> []))"
  by (auto simp: load_defs setters response_status_def dest!: call_filter_throws
      split: api_result.splits sum.splits)

text \<open>A load succeeds whenever the request resolves with a body that normalizes to a
  sequence without \<^verbatim>\<open>null\<close> entries; for a role other than Manager every resolved
  request does.\<close>

lemma load_try_succeeds:
  assumes "api e (load_request e) = Resolved d"
    and "normalizeList d = JArr xs"
    and "\<forall>t \<in> set xs. \<not> nullish t"
  shows "fst (load_try e s) = None"
  using assms filter_active_total [of xs]
  by (simp add: load_try_def Let_def)

lemma load_try_succeeds_not_manager:
  assumes "api e (load_request e) = Resolved d"
    and "\<not> isManager e"
  shows "fst (load_try e s) = None"
  using assms by (simp add: load_try_def Let_def)

text \<open>An entry that is \<^verbatim>\<open>null\<close> makes a Manager's load fail inside the filter: the
  \<^verbatim>\<open>catch\<close> block gives the generic message and clears the collection.\<close>

lemma load_null_entry:
  "snd (loadTemplates
      (example_env (Some ''t'') (Some ''MANAGER'') True (Resolved (JArr [JNull])) (Resolved JNull))
      initial_page) =
     \<lparr>templates = JArr [], loading = False,
      error = JStr ''Failed to load templates. Please check your connection.'',
      operationLoading = None,
      trace = [Request \<lparr>verb = GET, url = ''/performance/templates'',
                        authorization = ''Bearer t''\<rparr>]\<rparr>"
  by (simp add: example_env_def initial_page_def load_defs setters token_missing_def
      load_request_def bearer_def normalizeList_def isManager_def isHR_def get_member_def
      response_status_def response_data_def opt_chain_def js_or_def)

section \<open>Normalization (C1)\<close>

text \<open>
  Claim C1, as amended. The normalization step of the load operation returns the sequence
  \<open>xs\<close> for a body that is the bare sequence \<open>xs\<close>, for an object whose \<^verbatim>\<open>items\<close>
  field is \<open>xs\<close> (whatever its \<^verbatim>\<open>data\<close> field: the first matching shape wins), and
  for an object without an \<^verbatim>\<open>items\<close> field (absent or \<^verbatim>\<open>null\<close>) whose
  \<^verbatim>\<open>data\<close> field is \<open>xs\<close>. For every other body the step does not look at what a
  field holds: a body that is not a sequence normalizes to its \<^verbatim>\<open>items\<close> field when
  that field is there and not \<^verbatim>\<open>null\<close>, otherwise to its \<^verbatim>\<open>data\<close> field when
  that field is there and not \<^verbatim>\<open>null\<close>, and to the empty sequence only when both
  fields are absent or \<^verbatim>\<open>null\<close> (which covers \<^verbatim>\<open>null\<close>, numbers, strings and
  booleans). The four cases cover every body.
\<close>

theorem normalizeList_cases:
  "normalizeList (JArr xs) = JArr xs \<and>
   (map_of fs1 ''items'' = Some (JArr xs) \<longrightarrow> normalizeList (JObj fs1) = JArr xs) \<and>
   ((map_of fs2 ''items'' = None \<or> map_of fs2 ''items'' = Some JNull) \<and>
      map_of fs2 ''data'' = Some (JArr xs) \<longrightarrow> normalizeList (JObj fs2) = JArr xs) \<and>
   (\<not> isArray d1 \<and> \<not> nullish (opt_chain d1 ''items'') \<longrightarrow>
      normalizeList d1 = opt_chain d1 ''items'') \<and>
   (\<not> isArray d2 \<and> nullish (opt_chain d2 ''items'') \<and> \<not> nullish (opt_chain d2 ''data'') \<longrightarrow>
      normalizeList d2 = opt_chain d2 ''data'') \<and>
   (\<not> isArray d3 \<and> nullish (opt_chain d3 ''items'') \<and> nullish (opt_chain d3 ''data'') \<longrightarrow>
      normalizeList d3 = JArr [])"
  by (auto simp: normalizeList_def nullish_coalesce_def opt_chain_def)

theorem normalizeList_cases_witness:
  "normalizeList (JArr [q1_review, annual]) = JArr [q1_review, annual] \<and>
   normalizeList (JObj [(''items'', JArr [q1_review, annual]), (''data'', JArr [])]) =
     JArr [q1_review, annual] \<and>
   normalizeList (JObj [(''items'', JNull), (''data'', JArr [q1_review, annual])]) =
     JArr [q1_review, annual] \<and>
   normalizeList (JObj [(''items'', JStr ''abc'')]) = JStr ''abc'' \<and>
   normalizeList (JObj [(''data'', JNum 7)]) = JNum 7 \<and>
   normalizeList (JObj [(''total'', JNum 0)]) = JArr []"
  using normalizeList_cases [where xs = "[q1_review, annual]"
      and ?fs1.0 = "[(''items'', JArr [q1_review, annual]), (''data'', JArr [])]"
      and ?fs2.0 = "[(''items'', JNull), (''data'', JArr [q1_review, annual])]"
      and ?d1.0 = "JObj [(''items'', JStr ''abc'')]"
      and ?d2.0 = "JObj [(''data'', JNum 7)]"
      and ?d3.0 = "JObj [(''total'', JNum 0)]"]
  by (simp add: opt_chain_def)

text \<open>
  A field that is there but is not a sequence is returned as it is. The body
  \<^verbatim>\<open>{items: "abc"}\<close> has none of the three shapes and normalizes to the string, not
  to the empty sequence; the body \<^verbatim>\<open>{items: 0, data: [t]}\<close> is an object whose
  \<^verbatim>\<open>data\<close> field is a sequence and normalizes to the number, not to that sequence.
\<close>

theorem normalizeList_returns_non_sequence:
  "normalizeList (JObj [(''items'', JStr ''abc'')]) = JStr ''abc'' \<and>
   normalizeList (JObj [(''items'', JStr ''abc'')]) \<noteq> JArr [] \<and>
   normalizeList (JObj [(''items'', JNum 0), (''data'', JArr [annual])]) = JNum 0 \<and>
   normalizeList (JObj [(''items'', JNum 0), (''data'', JArr [annual])]) \<noteq> JArr [annual]"
  by (simp add: normalizeList_def opt_chain_def nullish_coalesce_def)

section \<open>Role-based projection (C2)\<close>

text \<open>
  Claim C2. Take a successful load: a token is stored, the list request resolves with a
  body that normalizes to the sequence \<open>xs\<close>, and the \<^verbatim>\<open>try\<close> block finishes without
  throwing. If the role is Manager (and not HR), the displayed sequence is exactly the
  subsequence of the entries of \<open>xs\<close> whose \<^verbatim>\<open>isActive\<close> is not the value
  \<^verbatim>\<open>false\<close>, in order (an entry without the flag is kept). If the role is HR, the
  displayed sequence is \<open>xs\<close> itself.
\<close>

theorem role_projection:
  assumes "\<not> token_missing (token e)"
    and "api e (load_request e) = Resolved d"
    and "normalizeList d = JArr xs"
    and "fst (load_try e s) = None"
  shows "(isManager e \<and> \<not> isHR e \<longrightarrow>
            templates (snd (loadTemplates e s)) =
              JArr (filter (\<lambda>t. get_prop t ''isActive'' \<noteq> JBool False) xs)) \<and>
         (isHR e \<longrightarrow> templates (snd (loadTemplates e s)) = JArr xs)"
  using assms
  by (auto simp: load_defs setters isHR_def isManager_def dest: filter_active_Inr
      split: sum.splits if_splits)

theorem role_projection_witness:
  "templates (snd (loadTemplates
      (example_env (Some ''t'') (Some ''MANAGER'') True
         (Resolved (JObj [(''data'', JArr [q1_review, annual])])) (Resolved JNull))
      initial_page)) = JArr [annual] \<and>
   templates (snd (loadTemplates
      (example_env (Some ''t'') (Some ''HR'') True
         (Resolved (JObj [(''data'', JArr [q1_review, annual])])) (Resolved JNull))
      initial_page)) = JArr [q1_review, annual]"
  using
    role_projection [where e = "example_env (Some ''t'') (Some ''MANAGER'') True
          (Resolved (JObj [(''data'', JArr [q1_review, annual])])) (Resolved JNull)"
      and s = initial_page and d = "JObj [(''data'', JArr [q1_review, annual])]"
      and xs = "[q1_review, annual]"]
    role_projection [where e = "example_env (Some ''t'') (Some ''HR'') True
          (Resolved (JObj [(''data'', JArr [q1_review, annual])])) (Resolved JNull)"
      and s = initial_page and d = "JObj [(''data'', JArr [q1_review, annual])]"
      and xs = "[q1_review, annual]"]
  by (simp add: example_env_def token_missing_def load_request_def normalizeList_def opt_chain_def
      nullish_coalesce_def load_try_def Let_def isManager_def isHR_def get_member_def
      q1_review_def annual_def setters)

section \<open>The message for a collection filtered to nothing (C3)\<close>

text \<open>
  Claim C3, as amended. Take a successful load (a token is stored, the request resolves, the
  \<^verbatim>\<open>try\<close> block does not throw) whose body normalizes to the sequence \<open>xs\<close>. If
  \<open>xs\<close> is not empty and the role-filtered sequence is empty, the displayed collection
  is empty and the page stores the text "No active templates available. Please contact
  HR." in its \<^verbatim>\<open>error\<close> cell: the error banner renders it, the empty-collection panel
  is not rendered, and nothing is performed but the list request (no redirect). If \<open>xs\<close>
  is empty, the \<^verbatim>\<open>error\<close> cell is \<^verbatim>\<open>null\<close>, no banner is rendered, and the
  empty-collection panel is.
\<close>

theorem no_active_templates_message:
  assumes "\<not> token_missing (token e)"
    and "api e (load_request e) = Resolved d"
    and "normalizeList d = JArr xs"
    and "fst (load_try e s) = None"
    and "s' = snd (loadTemplates e s)"
  shows "(xs \<noteq> [] \<and> templates s' = JArr [] \<longrightarrow>
            error s' = JStr ''No active templates available. Please contact HR.'' \<and>
            error_banner s' = Some (JStr ''No active templates available. Please contact HR.'') \<and>
            empty_panel e s' = None \<and>
            trace s' = trace s @ [Request (load_request e)]) \<and>
         (xs = [] \<longrightarrow>
            error s' = JNull \<and> error_banner s' = None \<and> templates s' = JArr [] \<and>
            empty_panel e s' \<noteq> None)"
  using assms
  by (auto simp: load_defs setters error_banner_def empty_panel_def
      split: sum.splits if_splits)

theorem no_active_templates_message_witness:
  "error (snd (loadTemplates
      (example_env (Some ''t'') (Some ''MANAGER'') True
         (Resolved (JObj [(''data'', JArr [q1_review])])) (Resolved JNull))
      initial_page)) = JStr ''No active templates available. Please contact HR.'' \<and>
   error (snd (loadTemplates
      (example_env (Some ''t'') (Some ''MANAGER'') True (Resolved (JArr [])) (Resolved JNull))
      initial_page)) = JNull"
  using
    no_active_templates_message [where e = "example_env (Some ''t'') (Some ''MANAGER'') True
          (Resolved (JObj [(''data'', JArr [q1_review])])) (Resolved JNull)"
      and s = initial_page and d = "JObj [(''data'', JArr [q1_review])]"
      and xs = "[q1_review]", OF _ _ _ _ refl]
    no_active_templates_message [where e = "example_env (Some ''t'') (Some ''MANAGER'') True
          (Resolved (JArr [])) (Resolved JNull)"
      and s = initial_page and d = "JArr []" and xs = "[]", OF _ _ _ _ refl]
  by (simp add: example_env_def token_missing_def load_request_def normalizeList_def opt_chain_def
      nullish_coalesce_def load_defs isManager_def isHR_def get_member_def
      q1_review_def setters)

text \<open>
  The scenario of the specification: the body \<^verbatim>\<open>{data: [t]}\<close> with \<open>t\<close> inactive, read
  by a Manager. The load succeeds, and the page is in its error state: the
  \<^verbatim>\<open>error\<close> cell is set and the banner \<^verbatim>\<open>Error: No active templates available.
  Please contact HR.\<close> is rendered.
\<close>

theorem no_active_templates_shown_as_error:
  "error_banner (snd (loadTemplates
      (example_env (Some ''t'') (Some ''MANAGER'') True
         (Resolved (JObj [(''data'', JArr [q1_review])])) (Resolved JNull))
      initial_page)) = Some (JStr ''No active templates available. Please contact HR.'') \<and>
   error (snd (loadTemplates
      (example_env (Some ''t'') (Some ''MANAGER'') True
         (Resolved (JObj [(''data'', JArr [q1_review])])) (Resolved JNull))
      initial_page)) \<noteq> JNull"
  by (simp add: example_env_def token_missing_def load_request_def normalizeList_def opt_chain_def
      nullish_coalesce_def load_defs isManager_def isHR_def get_member_def
      q1_review_def setters error_banner_def initial_page_def)

section \<open>Loading without a token (C4)\<close>

text \<open>
  Claim C4. When no session token is stored, a load makes no network call: its only effect
  is the redirect to \<^verbatim>\<open>/login\<close>, and it leaves the page with the message "Not
  authenticated. Please login again.", the loading indicator cleared, and the displayed
  collection and the in-flight marker as they were.
\<close>

theorem load_without_token:
  assumes "token e = None"
  shows "loadTemplates e s =
           (None, s\<lparr>loading := False,
                    error := JStr ''Not authenticated. Please login again.'',
                    trace := trace s @ [RouterPush ''/login'']\<rparr>)"
  using assms by (simp add: load_defs setters token_missing_def)

theorem load_without_token_witness:
  "loadTemplates (example_env None (Some ''HR'') True (Resolved (JArr [annual])) (Resolved JNull))
     initial_page =
   (None, \<lparr>templates = JArr [], loading = False,
           error = JStr ''Not authenticated. Please login again.'',
           operationLoading = None, trace = [RouterPush ''/login'']\<rparr>)"
  using load_without_token [where e = "example_env None (Some ''HR'') True
          (Resolved (JArr [annual])) (Resolved JNull)"
      and s = initial_page]
  by (simp add: example_env_def initial_page_def)

section \<open>Failure of the list request (C5)\<close>

text \<open>
  Claim C5. When the list request is rejected, nothing escapes \<^verbatim>\<open>loadTemplates\<close>, the
  displayed collection is cleared to the empty sequence and the loading indicator is
  cleared. The message is: for status 403 the insufficient-permission text; for status 401
  the authentication-failed text, with a redirect to \<^verbatim>\<open>/login\<close>; for anything else
  (another status, or no response at all) the \<^verbatim>\<open>message\<close> of the response body when
  there is one, and the generic connectivity text otherwise. A message is there when it is
  truthy, the test of \<^verbatim>\<open>||\<close>: a missing, \<^verbatim>\<open>null\<close> or empty message gives the generic
  text.
\<close>

theorem load_failure_mapping:
  assumes "\<not> token_missing (token e)"
    and "api e (load_request e) = Rejected r"
    and "m = opt_chain (response_data r) ''message''"
    and "s' = snd (loadTemplates e s)"
  shows "fst (loadTemplates e s) = None \<and> templates s' = JArr [] \<and> loading s' = False \<and>
         (response_status r = JNum 403 \<longrightarrow>
            error s' = JStr ''You do not have permission to view templates'' \<and>
            trace s' = trace s @ [Request (load_request e)]) \<and>
         (response_status r = JNum 401 \<longrightarrow>
            error s' = JStr ''Authentication failed. Please login again.'' \<and>
            trace s' = trace s @ [Request (load_request e), RouterPush ''/login'']) \<and>
         (response_status r \<noteq> JNum 403 \<and> response_status r \<noteq> JNum 401 \<longrightarrow>
            error s' =
              (if truthy m then m
               else JStr ''Failed to load templates. Please check your connection.'') \<and>
            trace s' = trace s @ [Request (load_request e)])"
  using assms by (simp add: load_defs setters js_or_def)

theorem load_failure_mapping_witness:
  "error (snd (loadTemplates
      (example_env (Some ''t'') (Some ''HR'') True
         (Rejected (Some \<lparr>status = 403, data = JObj [(''message'', JStr ''Forbidden resource'')]\<rparr>))
         (Resolved JNull))
      initial_page)) = JStr ''You do not have permission to view templates'' \<and>
   trace (snd (loadTemplates
      (example_env (Some ''t'') (Some ''HR'') True
         (Rejected (Some \<lparr>status = 401, data = JObj [(''message'', JStr ''Unauthorized'')]\<rparr>))
         (Resolved JNull))
      initial_page)) =
     [Request \<lparr>verb = GET, url = ''/performance/templates'', authorization = ''Bearer t''\<rparr>,
      RouterPush ''/login''] \<and>
   error (snd (loadTemplates
      (example_env (Some ''t'') (Some ''HR'') True
         (Rejected (Some \<lparr>status = 500, data = JObj [(''message'', JStr ''Database down'')]\<rparr>))
         (Resolved JNull))
      initial_page)) = JStr ''Database down'' \<and>
   error (snd (loadTemplates
      (example_env (Some ''t'') (Some ''HR'') True (Rejected None) (Resolved JNull))
      initial_page)) = JStr ''Failed to load templates. Please check your connection.''"
  using
    load_failure_mapping [where e = "example_env (Some ''t'') (Some ''HR'') True
          (Rejected (Some \<lparr>status = 403, data = JObj [(''message'', JStr ''Forbidden resource'')]\<rparr>))
          (Resolved JNull)"
      and s = initial_page
      and r = "Some \<lparr>status = 403, data = JObj [(''message'', JStr ''Forbidden resource'')]\<rparr>",
      OF _ _ refl refl]
    load_failure_mapping [where e = "example_env (Some ''t'') (Some ''HR'') True
          (Rejected (Some \<lparr>status = 401, data = JObj [(''message'', JStr ''Unauthorized'')]\<rparr>))
          (Resolved JNull)"
      and s = initial_page
      and r = "Some \<lparr>status = 401, data = JObj [(''message'', JStr ''Unauthorized'')]\<rparr>",
      OF _ _ refl refl]
    load_failure_mapping [where e = "example_env (Some ''t'') (Some ''HR'') True
          (Rejected (Some \<lparr>status = 500, data = JObj [(''message'', JStr ''Database down'')]\<rparr>))
          (Resolved JNull)"
      and s = initial_page
      and r = "Some \<lparr>status = 500, data = JObj [(''message'', JStr ''Database down'')]\<rparr>",
      OF _ _ refl refl]
    load_failure_mapping [where e = "example_env (Some ''t'') (Some ''HR'') True
          (Rejected None) (Resolved JNull)"
      and s = initial_page and r = None, OF _ _ refl refl]
  by (simp add: example_env_def token_missing_def load_request_def bearer_def
      response_status_def response_data_def opt_chain_def initial_page_def)

section \<open>Declining the confirmation (C6)\<close>

text \<open>
  Claim C6. When the user declines the confirmation, \<^verbatim>\<open>deleteTemplate\<close> makes no
  network call (its only effect is the dialog itself) and changes no view state: the
  displayed collection, the error message, the loading indicator and the in-flight marker
  are as before.
\<close>

theorem delete_declined:
  assumes "\<not> confirm e"
    and "s' = snd (deleteTemplate e tid s)"
  shows "fst (deleteTemplate e tid s) = None \<and>
         templates s' = templates s \<and> error s' = error s \<and> loading s' = loading s \<and>
         operationLoading s' = operationLoading s \<and>
         trace s' = trace s @ [Confirm ''Delete this template?'']"
  using assms by (simp add: deleteTemplate_def Let_def setters)

theorem delete_declined_witness:
  "deleteTemplate
     (example_env (Some ''t'') (Some ''HR'') False (Resolved (JArr [])) (Resolved JNull))
     ''1'' (initial_page\<lparr>templates := JArr [q1_review], loading := False\<rparr>) =
   (None, \<lparr>templates = JArr [q1_review], loading = False, error = JNull,
           operationLoading = None, trace = [Confirm ''Delete this template?'']\<rparr>)"
  using delete_declined [where e = "example_env (Some ''t'') (Some ''HR'') False
          (Resolved (JArr [])) (Resolved JNull)"
      and tid = "''1''"
      and s = "initial_page\<lparr>templates := JArr [q1_review], loading := False\<rparr>", OF _ refl]
  by (simp add: example_env_def initial_page_def prod_eq_iff)

section \<open>Failure of the delete request (C7)\<close>

text \<open>
  Claim C7. When the user confirms and the delete request is rejected, nothing escapes
  \<^verbatim>\<open>deleteTemplate\<close>, the displayed collection is unchanged, the in-flight marker is
  cleared, and only the dialog and the request were performed. The message is: for status
  403 the permission-denied text; for status 400 the \<^verbatim>\<open>message\<close> of the response body
  when there is one (truthy) and the generic delete-failure text otherwise; for anything
  else the generic delete-failure text.
\<close>

theorem delete_failure_mapping:
  assumes "confirm e"
    and "api e (delete_request e tid) = Rejected r"
    and "m = opt_chain (response_data r) ''message''"
    and "s' = snd (deleteTemplate e tid s)"
  shows "fst (deleteTemplate e tid s) = None \<and>
         templates s' = templates s \<and> operationLoading s' = None \<and> loading s' = loading s \<and>
         trace s' = trace s @ [Confirm ''Delete this template?'', Request (delete_request e tid)] \<and>
         (response_status r = JNum 403 \<longrightarrow> error s' = JStr ''You do not have permission'') \<and>
         (response_status r = JNum 400 \<longrightarrow>
            error s' = (if truthy m then m else JStr ''Failed to delete template'')) \<and>
         (response_status r \<noteq> JNum 403 \<and> response_status r \<noteq> JNum 400 \<longrightarrow>
            error s' = JStr ''Failed to delete template'')"
  using assms by (simp add: delete_defs try_catch_finally_def Let_def setters js_or_def)

theorem delete_failure_mapping_witness:
  "snd (deleteTemplate
      (example_env (Some ''t'') (Some ''HR'') True (Resolved (JArr []))
         (Rejected (Some \<lparr>status = 403, data = JObj [(''message'', JStr ''Forbidden resource'')]\<rparr>)))
      ''1'' (initial_page\<lparr>templates := JArr [q1_review], loading := False\<rparr>)) =
     \<lparr>templates = JArr [q1_review], loading = False,
      error = JStr ''You do not have permission'', operationLoading = None,
      trace = [Confirm ''Delete this template?'',
               Request \<lparr>verb = DELETE, url = ''/performance/templates/1'',
                        authorization = ''Bearer t''\<rparr>]\<rparr> \<and>
   error (snd (deleteTemplate
      (example_env (Some ''t'') (Some ''HR'') True (Resolved (JArr []))
         (Rejected (Some \<lparr>status = 400, data = JObj [(''message'', JStr ''Template is in use'')]\<rparr>)))
      ''1'' initial_page)) = JStr ''Template is in use'' \<and>
   error (snd (deleteTemplate
      (example_env (Some ''t'') (Some ''HR'') True (Resolved (JArr []))
         (Rejected (Some \<lparr>status = 500, data = JObj [(''message'', JStr ''Database down'')]\<rparr>)))
      ''1'' initial_page)) = JStr ''Failed to delete template''"
  using
    delete_failure_mapping [where e = "example_env (Some ''t'') (Some ''HR'') True
          (Resolved (JArr []))
          (Rejected (Some \<lparr>status = 403, data = JObj [(''message'', JStr ''Forbidden resource'')]\<rparr>))"
      and tid = "''1''"
      and s = "initial_page\<lparr>templates := JArr [q1_review], loading := False\<rparr>"
      and r = "Some \<lparr>status = 403, data = JObj [(''message'', JStr ''Forbidden resource'')]\<rparr>",
      OF _ _ refl refl]
    delete_failure_mapping [where e = "example_env (Some ''t'') (Some ''HR'') True
          (Resolved (JArr []))
          (Rejected (Some \<lparr>status = 400, data = JObj [(''message'', JStr ''Template is in use'')]\<rparr>))"
      and tid = "''1''" and s = initial_page
      and r = "Some \<lparr>status = 400, data = JObj [(''message'', JStr ''Template is in use'')]\<rparr>",
      OF _ _ refl refl]
    delete_failure_mapping [where e = "example_env (Some ''t'') (Some ''HR'') True
          (Resolved (JArr []))
          (Rejected (Some \<lparr>status = 500, data = JObj [(''message'', JStr ''Database down'')]\<rparr>))"
      and tid = "''1''" and s = initial_page
      and r = "Some \<lparr>status = 500, data = JObj [(''message'', JStr ''Database down'')]\<rparr>",
      OF _ _ refl refl]
  by (simp add: example_env_def delete_request_def bearer_def
      response_status_def response_data_def opt_chain_def initial_page_def)

section \<open>A successful delete reloads the list (C8)\<close>

text \<open>
  Claim C8. When the user confirms and the delete request resolves, the rest of
  \<^verbatim>\<open>deleteTemplate\<close> is one run of \<^verbatim>\<open>loadTemplates\<close> followed by the clearing of
  the in-flight marker. The marker is cleared; the displayed collection is the one a load
  produces, not the previous collection with the entry removed; and the run issues exactly
  one list request when a token is stored (none otherwise, as the reload then stops at its
  token check).
\<close>

theorem delete_success_reloads:
  assumes "confirm e"
    and "api e (delete_request e tid) = Resolved b"
    and "s' = snd (deleteTemplate e tid s)"
  shows "s' = setOperationLoading None
                (snd (loadTemplates e
                   (perform (Request (delete_request e tid))
                      (setOperationLoading (Some (''delete-'' @ tid))
                         (perform (Confirm ''Delete this template?'') s))))) \<and>
         operationLoading s' = None \<and>
         templates s' = templates (snd (loadTemplates e s)) \<and>
         count_list (trace s') (Request (load_request e)) =
           count_list (trace s) (Request (load_request e)) +
           (if token_missing (token e) then 0 else 1)"
proof -
  let ?s2 = "perform (Request (delete_request e tid))
               (setOperationLoading (Some (''delete-'' @ tid))
                  (perform (Confirm ''Delete this template?'') s))"
  have eq: "s' = setOperationLoading None (snd (loadTemplates e ?s2))"
    using assms by (simp add: delete_defs try_catch_finally_def Let_def)
  have t: "templates ?s2 = templates s"
    by (simp add: setters)
  have ne: "Request (delete_request e tid) \<noteq> Request (load_request e)"
    by (simp add: delete_request_def load_request_def)
  have "count_list (trace s') (Request (load_request e)) =
          count_list (trace s) (Request (load_request e)) +
          (if token_missing (token e) then 0 else 1)"
    unfolding eq using ne
    by (simp add: loadTemplates_trace setters split: api_result.splits)
  with eq loadTemplates_frame [OF t, of e] show ?thesis
    by (simp add: setters)
qed

theorem delete_success_reloads_witness:
  "snd (deleteTemplate
      (example_env (Some ''t'') (Some ''HR'') True (Resolved (JArr [annual])) (Resolved JNull))
      ''1'' (initial_page\<lparr>templates := JArr [q1_review, annual], loading := False\<rparr>)) =
     \<lparr>templates = JArr [annual], loading = False, error = JNull, operationLoading = None,
      trace = [Confirm ''Delete this template?'',
               Request \<lparr>verb = DELETE, url = ''/performance/templates/1'',
                        authorization = ''Bearer t''\<rparr>,
               Request \<lparr>verb = GET, url = ''/performance/templates'',
                        authorization = ''Bearer t''\<rparr>]\<rparr>"
  using delete_success_reloads [where e = "example_env (Some ''t'') (Some ''HR'') True
          (Resolved (JArr [annual])) (Resolved JNull)"
      and tid = "''1''"
      and s = "initial_page\<lparr>templates := JArr [q1_review, annual], loading := False\<rparr>"
      and b = JNull, OF _ _ refl]
  by (simp add: example_env_def delete_request_def load_request_def bearer_def initial_page_def
      load_defs setters token_missing_def normalizeList_def isHR_def isManager_def annual_def)

section \<open>The port of the server (C9)\<close>

lemma example_boot_resolves:
  "create_resolves (example_boot m)" "listen_resolves (example_boot m) p"
  by (simp_all add: example_boot_def)

lemma example_boot_env: "dotenv_config (example_boot m) (process_env (example_boot m)) = m"
  by (simp add: example_boot_def)

lemma choose_port_examples:
  "choose_port Map.empty = PortNum 3001"
  "choose_port [''PORT'' \<mapsto> ''8080''] = PortStr ''8080''"
  by (simp_all add: choose_port_def)

lemma decimal_digits_3001: "decimal_digits 3001 [] = ''3001''"
  by code_simp

text \<open>
  Claim C9. Let \<open>env\<close> be the process environment after \<^verbatim>\<open>dotenv.config()\<close>. When
  \<^verbatim>\<open>NestFactory.create\<close> and \<^verbatim>\<open>app.listen\<close> resolve, \<^verbatim>\<open>bootstrap\<close> resolves,
  and its effects end with the call of \<^verbatim>\<open>listen\<close> on the chosen port followed by the
  two readiness lines, which name that port. The chosen port is the value of
  \<^verbatim>\<open>PORT\<close> when the variable is set (and not empty), and the number 3001 when it is
  unset.
\<close>

theorem bootstrap_listens_on_port:
  assumes "create_resolves b"
    and "env = dotenv_config b (process_env b)"
    and "listen_resolves b (choose_port env)"
  shows "bootstrap b =
           (True,
            [DotenvConfig, ConsoleLog [''BACKEND DB URI =>'', env_text (env ''MONGO_URI'')],
             NestCreate] @ middleware_setup @ [Listen (choose_port env)] @
            readiness_lines (choose_port env)) \<and>
         (env ''PORT'' = None \<longrightarrow> choose_port env = PortNum 3001) \<and>
         (\<forall>p. env ''PORT'' = Some p \<and> p \<noteq> [] \<longrightarrow> choose_port env = PortStr p)"
  using assms by (simp add: bootstrap_def Let_def choose_port_def)

theorem bootstrap_listens_on_port_witness:
  "drop 8 (snd (bootstrap (example_boot Map.empty))) =
     [Listen (PortNum 3001),
      ConsoleLog [''Backend running at http://localhost:3001 '' @ rocket],
      ConsoleLog [''Swagger running at http://localhost:3001/api '' @ green_circle]] \<and>
   drop 8 (snd (bootstrap (example_boot [''PORT'' \<mapsto> ''8080'']))) =
     [Listen (PortStr ''8080''),
      ConsoleLog [''Backend running at http://localhost:8080 '' @ rocket],
      ConsoleLog [''Swagger running at http://localhost:8080/api '' @ green_circle]]"
proof -
  have a: "bootstrap (example_boot Map.empty) =
      (True,
       [DotenvConfig, ConsoleLog [''BACKEND DB URI =>'', env_text (Map.empty ''MONGO_URI'')],
        NestCreate] @ middleware_setup @ [Listen (PortNum 3001)] @
       readiness_lines (PortNum 3001))"
    using bootstrap_listens_on_port [where b = "example_boot Map.empty" and env = Map.empty]
    by (simp only: example_boot_resolves example_boot_env choose_port_examples simp_thms)
  have b: "bootstrap (example_boot [''PORT'' \<mapsto> ''8080'']) =
      (True,
       [DotenvConfig,
        ConsoleLog [''BACKEND DB URI =>'', env_text ([''PORT'' \<mapsto> ''8080''] ''MONGO_URI'')],
        NestCreate] @ middleware_setup @ [Listen (PortStr ''8080'')] @
       readiness_lines (PortStr ''8080''))"
    using bootstrap_listens_on_port [where b = "example_boot [''PORT'' \<mapsto> ''8080'']"
        and env = "[''PORT'' \<mapsto> ''8080'']"]
    by (simp only: example_boot_resolves example_boot_env choose_port_examples simp_thms)
  show ?thesis
    unfolding a b snd_conv
    by (simp add: middleware_setup_def readiness_lines_def decimal_digits_3001)
qed

section \<open>Deleting without a token (C10)\<close>

text \<open>
  Claim C10, as amended. \<^verbatim>\<open>deleteTemplate\<close> has no token check. When the user
  confirms and no session token is stored, the first thing performed after the dialog is
  the delete request, whose \<^verbatim>\<open>Authorization\<close> header is \<^verbatim>\<open>Bearer null\<close>. When
  the request is rejected, nothing more is performed (no redirect) and the message is one
  of the three of the delete failure mapping. When the request resolves, the reload that
  follows stops at the token check of the load operation: no list request is made, the
  page ends with the message "Not authenticated. Please login again." and a redirect to
  \<^verbatim>\<open>/login\<close>, the loading indicator and the in-flight marker cleared, and the
  displayed collection as it was.
\<close>

theorem delete_without_token_check:
  assumes "confirm e"
    and "token e = None"
    and "rq = \<lparr>verb = DELETE, url = ''/performance/templates/'' @ tid,
               authorization = ''Bearer null''\<rparr>"
    and "s' = snd (deleteTemplate e tid s)"
  shows "take (length (trace s) + 2) (trace s') =
           trace s @ [Confirm ''Delete this template?'', Request rq] \<and>
         (\<forall>r. api e rq = Rejected r \<longrightarrow>
            trace s' = trace s @ [Confirm ''Delete this template?'', Request rq] \<and>
            error s' \<in> {JStr ''You do not have permission'', JStr ''Failed to delete template'',
                        opt_chain (response_data r) ''message''}) \<and>
         (\<forall>b. api e rq = Resolved b \<longrightarrow>
            s' = s\<lparr>loading := False,
                    error := JStr ''Not authenticated. Please login again.'',
                    operationLoading := None,
                    trace := trace s @ [Confirm ''Delete this template?'', Request rq,
                                        RouterPush ''/login'']\<rparr>)"
proof -
  have rq: "delete_request e tid = rq"
    using assms by (simp add: delete_request_def bearer_def)
  show ?thesis
  proof (cases "api e rq")
    case (Rejected r)
    have "s' = setOperationLoading None
                 (snd (delete_catch (AxiosError r)
                    (perform (Request rq)
                       (setOperationLoading (Some (''delete-'' @ tid))
                          (perform (Confirm ''Delete this template?'') s)))))"
      using assms(1,4) rq Rejected
      by (simp add: deleteTemplate_def delete_try_def try_catch_finally_def Let_def
          split: prod.splits)
    then have "trace s' = trace s @ [Confirm ''Delete this template?'', Request rq]"
      and "error s' \<in> {JStr ''You do not have permission'', JStr ''Failed to delete template'',
                        opt_chain (response_data r) ''message''}"
      by (simp_all add: delete_catch_def Let_def setters js_or_def)
    with Rejected show ?thesis by simp
  next
    case (Resolved b)
    have eq: "s' = setOperationLoading None
                   (snd (loadTemplates e
                      (perform (Request rq)
                         (setOperationLoading (Some (''delete-'' @ tid))
                            (perform (Confirm ''Delete this template?'') s)))))"
      using assms(1,4) rq Resolved
      by (simp add: deleteTemplate_def delete_try_def try_catch_finally_def Let_def)
    have "s' = s\<lparr>loading := False,
                    error := JStr ''Not authenticated. Please login again.'',
                    operationLoading := None,
                    trace := trace s @ [Confirm ''Delete this template?'', Request rq,
                                        RouterPush ''/login'']\<rparr>"
      unfolding eq using assms(2)
      by (simp add: load_defs setters token_missing_def)
    then have "take (length (trace s) + 2) (trace s') =
           trace s @ [Confirm ''Delete this template?'', Request rq]"
      by simp
    with \<open>s' = s\<lparr>loading := False,
                    error := JStr ''Not authenticated. Please login again.'',
                    operationLoading := None,
                    trace := trace s @ [Confirm ''Delete this template?'', Request rq,
                                        RouterPush ''/login'']\<rparr>\<close> Resolved
    show ?thesis by simp
  qed
qed

theorem delete_without_token_check_witness:
  "trace (snd (deleteTemplate
      (example_env None (Some ''HR'') True (Resolved (JArr []))
         (Rejected (Some \<lparr>status = 401, data = JObj [(''message'', JStr ''Unauthorized'')]\<rparr>)))
      ''1'' initial_page)) =
     [Confirm ''Delete this template?'',
      Request \<lparr>verb = DELETE, url = ''/performance/templates/1'',
               authorization = ''Bearer null''\<rparr>] \<and>
   snd (deleteTemplate
      (example_env None (Some ''HR'') True (Resolved (JArr [annual])) (Resolved JNull))
      ''1'' (initial_page\<lparr>templates := JArr [q1_review, annual], loading := False\<rparr>)) =
     \<lparr>templates = JArr [q1_review, annual], loading = False,
      error = JStr ''Not authenticated. Please login again.'', operationLoading = None,
      trace = [Confirm ''Delete this template?'',
               Request \<lparr>verb = DELETE, url = ''/performance/templates/1'',
                        authorization = ''Bearer null''\<rparr>,
               RouterPush ''/login'']\<rparr>"
proof -
  let ?r = "Some \<lparr>status = 401, data = JObj [(''message'', JStr ''Unauthorized'')]\<rparr>"
  let ?e1 = "example_env None (Some ''HR'') True (Resolved (JArr [])) (Rejected ?r)"
  let ?e2 = "example_env None (Some ''HR'') True (Resolved (JArr [annual])) (Resolved JNull)"
  let ?s2 = "initial_page\<lparr>templates := JArr [q1_review, annual], loading := False\<rparr>"
  let ?rq = "\<lparr>verb = DELETE, url = ''/performance/templates/'' @ ''1'',
               authorization = ''Bearer null''\<rparr>"
  have c: "confirm ?e1" "confirm ?e2" and t: "token ?e1 = None" "token ?e2 = None"
    by (simp_all add: example_env_def)
  have a1: "api ?e1 ?rq = Rejected ?r" and a2: "api ?e2 ?rq = Resolved JNull"
    by (simp_all add: example_env_def)
  from delete_without_token_check
         [OF c(1) t(1) refl refl, where tid = "''1''" and s = initial_page] a1
  have 1: "trace (snd (deleteTemplate ?e1 ''1'' initial_page)) =
          trace initial_page @ [Confirm ''Delete this template?'', Request ?rq]"
    by blast
  from delete_without_token_check
         [OF c(2) t(2) refl refl, where tid = "''1''" and s = ?s2] a2
  have 2: "snd (deleteTemplate ?e2 ''1'' ?s2) =
          ?s2\<lparr>loading := False,
                error := JStr ''Not authenticated. Please login again.'',
                operationLoading := None,
                trace := trace ?s2 @ [Confirm ''Delete this template?'', Request ?rq,
                                      RouterPush ''/login'']\<rparr>"
    by blast
  show ?thesis
    unfolding 1 2 by (simp add: initial_page_def)
qed

text \<open>
  A confirmed delete with no stored token whose request the server accepts: the invocation
  ends with the unauthenticated message and the redirect to the login page.
\<close>

theorem delete_without_token_redirects:
  "error (snd (deleteTemplate
      (example_env None (Some ''HR'') True (Resolved (JArr [annual])) (Resolved JNull))
      ''1'' initial_page)) = JStr ''Not authenticated. Please login again.'' \<and>
   trace (snd (deleteTemplate
      (example_env None (Some ''HR'') True (Resolved (JArr [annual])) (Resolved JNull))
      ''1'' initial_page)) =
     [Confirm ''Delete this template?'',
      Request \<lparr>verb = DELETE, url = ''/performance/templates/1'',
               authorization = ''Bearer null''\<rparr>,
      RouterPush ''/login'']"
  by (simp add: example_env_def initial_page_def delete_defs load_defs setters
      delete_request_def bearer_def token_missing_def)

end
